theory Spec2Isabelle
  imports Complex_Main
begin

section \<open>JavaScript values handled by the controller\<close>

text \<open>
  A JavaScript number is a double. The controller only divides a number by a positive
  literal and multiplies one by the literal \<open>1\<close>, so a number is modelled as \<open>NaN\<close>,
  a signed infinity or a real; the rounding of doubles is not modelled.
\<close>

datatype jsnum = NaN | Infinity bool | Num real

fun js_div_lit :: "jsnum \<Rightarrow> real \<Rightarrow> jsnum" where
  "js_div_lit NaN c = NaN"
| "js_div_lit (Infinity s) c = Infinity s"
| "js_div_lit (Num x) c = Num (x / c)"

fun js_mul_lit :: "jsnum \<Rightarrow> real \<Rightarrow> jsnum" where
  "js_mul_lit NaN c = NaN"
| "js_mul_lit (Infinity s) c = Infinity s"
| "js_mul_lit (Num x) c = Num (x * c)"

text \<open>
  A route parameter is a string; a destructured array element that does not exist is
  \<open>undefined\<close>, here \<open>None\<close>. An arithmetic operator converts its operand with the
  built-in \<open>ToNumber\<close>: \<open>undefined\<close> becomes \<open>NaN\<close>, a string is read by the built-in
  string-to-number conversion, which is a parameter \<open>str2num\<close> of the model.
\<close>

type_synonym jsstr = "string option"

definition ToNumber :: "(string \<Rightarrow> jsnum) \<Rightarrow> jsstr \<Rightarrow> jsnum" where
  "ToNumber str2num v = (case v of None \<Rightarrow> NaN | Some s \<Rightarrow> str2num s)"

text \<open>\<open>!v\<close> for a value that is a string or \<open>undefined\<close>: both \<open>undefined\<close> and the empty
  string are falsy.\<close>

definition falsy :: "jsstr \<Rightarrow> bool" where
  "falsy v = (case v of None \<Rightarrow> True | Some s \<Rightarrow> s = [])"

text \<open>\<open>String.prototype.split\<close> with a one-character separator: the result always has
  at least one element, and \<open>''''\<close> splits into \<open>['''']\<close>.\<close>

fun split :: "char \<Rightarrow> string \<Rightarrow> string list" where
  "split c [] = [[]]"
| "split c (x # xs) =
     (if x = c then [] # split c xs
      else (case split c xs of [] \<Rightarrow> [[x]] | w # ws \<Rightarrow> (x # w) # ws))"

text \<open>Reading an array element: \<open>undefined\<close> beyond the end.\<close>

definition at_index :: "'a list \<Rightarrow> nat \<Rightarrow> 'a option" where
  "at_index xs i = (if i < length xs then Some (xs ! i) else None)"

text \<open>ASCII case mapping, as \<open>$toUpper\<close> and the router's case-insensitive paths use it.\<close>

definition upper_char :: "char \<Rightarrow> char" where
  "upper_char c =
     (case map_of (zip ''abcdefghijklmnopqrstuvwxyz'' ''ABCDEFGHIJKLMNOPQRSTUVWXYZ'') c of
        None \<Rightarrow> c
      | Some u \<Rightarrow> u)"

definition toUpper :: "string \<Rightarrow> string" where
  "toUpper s = map upper_char s"

section \<open>Documents, errors and the model layer\<close>

text \<open>
  A document is a list of fields with dynamic values. A GeoJSON point is kept as one
  value \<open>BPoint lng lat\<close>.
\<close>

datatype bson = BNull | BNum real | BStr string | BArr "bson list" | BPoint real real

type_synonym doc = "(string \<times> bson) list"

definition field :: "doc \<Rightarrow> string \<Rightarrow> bson" where
  "field d f = (case map_of d f of None \<Rightarrow> BNull | Some v \<Rightarrow> v)"

definition set_field :: "string \<Rightarrow> bson \<Rightarrow> doc \<Rightarrow> doc" where
  "set_field f v d = (f, v) # filter (\<lambda>kv. fst kv \<noteq> f) d"

text \<open>
  \<open>AppError message statusCode\<close> is the error the controller constructs;
  \<open>Rejected\<close> is any error a promise of the model layer rejects with.
\<close>

datatype error = AppError string nat | Rejected string

text \<open>The aggregation pipeline objects the controller builds.\<close>

datatype expr = FieldPath string | ToUpper expr | Literal real

datatype accumulator = Sum expr | Avg expr

datatype stage =
    GeoNear "jsnum \<times> jsnum" string real
  | Project "string list"
  | Unwind string
  | Group expr "(string \<times> accumulator) list"
  | Sort "(string \<times> int) list"

text \<open>\<open>{ location: { $geoWithin: { $centerSphere: [[x, y], radius] } } }\<close>\<close>

datatype filter_query = GeoWithinCenterSphere string "jsstr \<times> jsstr" jsnum

record populate_options =
  path :: string
  select :: string

record update_options =
  new :: bool
  runValidators :: bool

text \<open>
  The calls the controller makes on the \<open>Restaurant\<close> model. The model
  (\<open>models/restaurantModel\<close>) and the database behind it are outside the controller:
  the handlers are functions of a model layer \<open>M\<close> that answers each awaited call with
  a rejection (\<open>Inl\<close>) or a value (\<open>Inr\<close>).
\<close>

datatype db_call =
    FindById string "populate_options option"
  | Create doc
  | FindByIdAndUpdate string doc update_options
  | Remove doc
  | Find filter_query
  | Aggregate "stage list"

record model =
  findById :: "string \<Rightarrow> populate_options option \<Rightarrow> error + doc option"
  create :: "doc \<Rightarrow> error + doc"
  findByIdAndUpdate :: "string \<Rightarrow> doc \<Rightarrow> update_options \<Rightarrow> error + doc option"
  find_where :: "filter_query \<Rightarrow> error + doc list"
  aggregate :: "stage list \<Rightarrow> error + doc list"

section \<open>Responses and effects\<close>

datatype payload = Document doc | Documents "doc list"

record envelope =
  status :: string
  count :: "nat option"
  data :: payload

text \<open>A response body: an envelope built by the handler, or the object the query
  middleware left in \<open>res.advancedQuery\<close>.\<close>

datatype body = Json envelope | ResAdvancedQuery

text \<open>
  What a handler does, in order: a call on the model, \<open>next(err)\<close>, or
  \<open>res.status(code).json(body)\<close>.
\<close>

datatype effect = DbCall db_call | Next error | Respond nat body

type_synonym 'a async = "effect list \<times> (error + 'a)"

text \<open>
  Modelled from the spec: \<open>middleware/asyncHandler\<close> is not among the sources. The
  error-wrapping middleware catches the rejection of a handler and forwards it to
  \<open>next\<close>.
\<close>

definition asyncHandler :: "unit async \<Rightarrow> effect list" where
  "asyncHandler fn = (case snd fn of Inl e \<Rightarrow> fst fn @ [Next e] | Inr u \<Rightarrow> fst fn)"

section \<open>The controller\<close>


definition success :: "payload \<Rightarrow> body" where
  "success d = Json \<lparr>status = ''success'', count = None, data = d\<rparr>"

subsection \<open>Get all restaurants\<close>

definition getAllRestaurants_fn :: "unit async" where
  "getAllRestaurants_fn = ([Respond 200 ResAdvancedQuery], Inr ())"

definition getAllRestaurants :: "effect list" where
  "getAllRestaurants = asyncHandler getAllRestaurants_fn"

subsection \<open>Get single restaurant\<close>



subsection \<open>Create new restaurant\<close>

definition createRestaurant_fn :: "model \<Rightarrow> doc \<Rightarrow> unit async" where
  "createRestaurant_fn M b =
     (case create M b of
        Inl e \<Rightarrow> ([DbCall (Create b)], Inl e)
      | Inr restaurant \<Rightarrow>
          ([DbCall (Create b), Respond 201 (success (Document restaurant))], Inr ()))"

definition createRestaurant :: "model \<Rightarrow> doc \<Rightarrow> effect list" where
  "createRestaurant M b = asyncHandler (createRestaurant_fn M b)"

subsection \<open>Update restaurant\<close>



subsection \<open>Delete restaurant\<close>



subsection \<open>Validation shared by the two geospatial handlers\<close>

text \<open>
  Both handlers run the same two checks. Each check calls \<open>next\<close> with a 400 error and
  has no \<open>return\<close>: what it contributes is a list of effects, and the handler goes on.
\<close>

definition check_point :: "jsstr \<Rightarrow> jsstr \<Rightarrow> effect list" where
  "check_point lat lng =
     (if falsy lat \<or> falsy lng
      then [Next (AppError ''Please provide latitude and longitude of a point'' 400)]
      else [])"

definition check_unit :: "string \<Rightarrow> effect list" where
  "check_unit unit =
     (if unit \<noteq> ''km'' \<and> unit \<noteq> ''mi''
      then [Next (AppError ''Please provide unit in km(kilometres) or mi(miles)'' 400)]
      else [])"

subsection \<open>Get restaurants within distance near point\<close>

definition radius_of :: "(string \<Rightarrow> jsnum) \<Rightarrow> string \<Rightarrow> string \<Rightarrow> jsnum" where
  "radius_of str2num distance unit =
     (if unit = ''km'' then js_div_lit (ToNumber str2num (Some distance)) 6378.16
      else js_div_lit (ToNumber str2num (Some distance)) 3963.2)"

definition within_query :: "(string \<Rightarrow> jsnum) \<Rightarrow> string \<Rightarrow> string \<Rightarrow> string \<Rightarrow> filter_query" where
  "within_query str2num distance unit latlng =
     (let parts = split CHR '','' latlng; lat = at_index parts 0; lng = at_index parts 1
      in GeoWithinCenterSphere ''location'' (lng, lat) (radius_of str2num distance unit))"

definition getRestaurantsWithin_fn ::
  "(string \<Rightarrow> jsnum) \<Rightarrow> model \<Rightarrow> string \<Rightarrow> string \<Rightarrow> string \<Rightarrow> unit async" where
  "getRestaurantsWithin_fn str2num M distance unit latlng =
     (let parts = split CHR '','' latlng; lat = at_index parts 0; lng = at_index parts 1;
          checks = check_point lat lng @ check_unit unit;
          q = within_query str2num distance unit latlng
      in case find_where M q of
           Inl e \<Rightarrow> (checks @ [DbCall (Find q)], Inl e)
         | Inr restaurants \<Rightarrow>
             (checks @ [DbCall (Find q),
                Respond 200 (Json \<lparr>status = ''success'', count = Some (length restaurants),
                                    data = Documents restaurants\<rparr>)], Inr ()))"

definition getRestaurantsWithin ::
  "(string \<Rightarrow> jsnum) \<Rightarrow> model \<Rightarrow> string \<Rightarrow> string \<Rightarrow> string \<Rightarrow> effect list" where
  "getRestaurantsWithin str2num M distance unit latlng =
     asyncHandler (getRestaurantsWithin_fn str2num M distance unit latlng)"

subsection \<open>Get distances from point to all restaurants\<close>

definition distanceMultiplier :: "string \<Rightarrow> real" where
  "distanceMultiplier unit = (if unit = ''km'' then 0.001 else 0.000621371)"

definition distances_pipeline :: "(string \<Rightarrow> jsnum) \<Rightarrow> string \<Rightarrow> string \<Rightarrow> stage list" where
  "distances_pipeline str2num latlng unit =
     (let parts = split CHR '','' latlng; lat = at_index parts 0; lng = at_index parts 1
      in [GeoNear (js_mul_lit (ToNumber str2num lng) 1, js_mul_lit (ToNumber str2num lat) 1)
            ''distance'' (distanceMultiplier unit),
          Project [''name'', ''distance'']])"

definition getDistances_fn ::
  "(string \<Rightarrow> jsnum) \<Rightarrow> model \<Rightarrow> string \<Rightarrow> string \<Rightarrow> unit async" where
  "getDistances_fn str2num M latlng unit =
     (let parts = split CHR '','' latlng; lat = at_index parts 0; lng = at_index parts 1;
          checks = check_point lat lng @ check_unit unit;
          p = distances_pipeline str2num latlng unit
      in case aggregate M p of
           Inl e \<Rightarrow> (checks @ [DbCall (Aggregate p)], Inl e)
         | Inr distances \<Rightarrow>
             (checks @ [DbCall (Aggregate p), Respond 200 (success (Documents distances))],
              Inr ()))"

definition getDistances ::
  "(string \<Rightarrow> jsnum) \<Rightarrow> model \<Rightarrow> string \<Rightarrow> string \<Rightarrow> effect list" where
  "getDistances str2num M latlng unit = asyncHandler (getDistances_fn str2num M latlng unit)"

subsection \<open>Aggregations by suburb and by cuisine\<close>

definition stats_group :: "string \<Rightarrow> stage" where
  "stats_group f =
     Group (ToUpper (FieldPath f))
       [(''numRestaurants'', Sum (Literal 1)),
        (''numRatings'', Sum (FieldPath ''ratingsQuantity'')),
        (''avgRating'', Avg (FieldPath ''ratingsAverage''))]"

definition stats_sort :: stage where
  "stats_sort = Sort [(''numRestaurants'', -1), (''numRatings'', -1), (''avgRating'', -1)]"

definition suburb_pipeline :: "stage list" where
  "suburb_pipeline = [stats_group ''suburb'', stats_sort]"

definition cuisine_pipeline :: "stage list" where
  "cuisine_pipeline = [Unwind ''cuisine'', stats_group ''cuisine'', stats_sort]"

definition stats_fn :: "model \<Rightarrow> stage list \<Rightarrow> unit async" where
  "stats_fn M p =
     (case aggregate M p of
        Inl e \<Rightarrow> ([DbCall (Aggregate p)], Inl e)
      | Inr stats \<Rightarrow>
          ([DbCall (Aggregate p), Respond 200 (success (Documents stats))], Inr ()))"

definition getStatsBySuburb :: "model \<Rightarrow> effect list" where
  "getStatsBySuburb M = asyncHandler (stats_fn M suburb_pipeline)"

definition getStatsByCuisine :: "model \<Rightarrow> effect list" where
  "getStatsByCuisine M = asyncHandler (stats_fn M cuisine_pipeline)"

section \<open>The router\<close>

text \<open>
  \<open>routes/restaurantRoutes.js\<close>. The router is mounted at \<open>/api/restaurants\<close>; a path
  below is what follows the mount point. A route pattern is a list of segments, a
  literal or a named parameter \<open>:name\<close>. The framework matches literals without regard
  to case, lets a parameter match one non-empty segment, allows one trailing slash, and
  hands the request to the first layer that matches. A parameter is bound to the
  segment as it stands in the path; percent-decoding is not modelled.
\<close>

datatype verb = GET | POST | PUT | PATCH | DELETE

datatype seg = Lit string | Param string

datatype middleware = AdvancedQuery | Protect | RestrictTo "string list"

text \<open>The handlers the controller exports, and the nested review router.\<close>

datatype handler =
    GetAllRestaurants | GetRestaurant | CreateRestaurant | UpdateRestaurant
  | DeleteRestaurant | GetRestaurantsWithin | GetDistances
  | GetStatsBySuburb | GetStatsByCuisine
  | ReviewRouter

text \<open>\<open>router.use(path, h)\<close> matches every method and every path that starts with the
  pattern; \<open>router.get(path, ...)\<close> and \<open>router.route(path).get(...)\<close> match one method
  and the whole path.\<close>

datatype layer = Use "seg list" handler | Route verb "seg list" "middleware list" handler

definition router :: "layer list" where
  "router =
     [Use [Param ''restaurantId'', Lit ''reviews''] ReviewRouter,
      Route GET [Lit ''within'', Param ''distance'', Param ''unit'', Lit ''near'', Param ''latlng'']
        [] GetRestaurantsWithin,
      Route GET [Lit ''distances-from'', Param ''latlng'', Lit ''unit'', Param ''unit'']
        [] GetDistances,
      Route GET [] [AdvancedQuery] GetAllRestaurants,
      Route POST [] [Protect, RestrictTo [''staff'', ''owner'', ''admin'']] CreateRestaurant,
      Route GET [Param ''id''] [] GetRestaurant,
      Route PATCH [Param ''id''] [Protect, RestrictTo [''staff'', ''owner'', ''admin'']]
        UpdateRestaurant,
      Route DELETE [Param ''id''] [Protect, RestrictTo [''owner'', ''admin'']]
        DeleteRestaurant]"

fun strip_slash :: "string list \<Rightarrow> string list" where
  "strip_slash [] = []"
| "strip_slash [s] = (if s = [] then [] else [s])"
| "strip_slash (s # ss) = s # strip_slash ss"

definition segments :: "string \<Rightarrow> string list option" where
  "segments p =
     (case p of
        [] \<Rightarrow> None
      | c # cs \<Rightarrow> if c = CHR ''/'' then Some (strip_slash (split CHR ''/'' cs)) else None)"

fun match_segs :: "seg list \<Rightarrow> string list \<Rightarrow> (string \<times> string) list option" where
  "match_segs [] [] = Some []"
| "match_segs (Lit l # ps) (s # ss) =
     (if toUpper l = toUpper s then match_segs ps ss else None)"
| "match_segs (Param n # ps) (s # ss) =
     (if s = [] then None else map_option (\<lambda>bs. (n, s) # bs) (match_segs ps ss))"
| "match_segs ps ss = None"

type_synonym target = "middleware list \<times> handler \<times> (string \<times> string) list"

fun match_layer :: "layer \<Rightarrow> verb \<Rightarrow> string list \<Rightarrow> target option" where
  "match_layer (Use pat h) m ss =
     map_option (\<lambda>bs. ([], h, bs)) (match_segs pat (take (length pat) ss))"
| "match_layer (Route m' pat mws h) m ss =
     (if m = m' then map_option (\<lambda>bs. (mws, h, bs)) (match_segs pat ss) else None)"

fun dispatch :: "layer list \<Rightarrow> verb \<Rightarrow> string list \<Rightarrow> target option" where
  "dispatch [] m ss = None"
| "dispatch (l # ls) m ss =
     (case match_layer l m ss of Some t \<Rightarrow> Some t | None \<Rightarrow> dispatch ls m ss)"

definition route_request :: "verb \<Rightarrow> string \<Rightarrow> target option" where
  "route_request m p = (case segments p of None \<Rightarrow> None | Some ss \<Rightarrow> dispatch router m ss)"

text \<open>The handler a request reaches, if any.\<close>

definition handler_of :: "verb \<Rightarrow> string \<Rightarrow> handler option" where
  "handler_of m p = map_option (\<lambda>t. fst (snd t)) (route_request m p)"

section \<open>The aggregation engine\<close>

text \<open>
  Modelled from the spec: the database engine and \<open>models/restaurantModel\<close>, through
  which \<open>Restaurant.aggregate\<close> reaches it, are not among the sources. The spec names
  what each stage does: \<open>$geoNear\<close> annotates every document with its distance from
  the reference point, multiplied by the distance multiplier, nearest first;
  \<open>$project\<close> keeps the listed fields (and the document id); \<open>$unwind\<close> makes one row
  per element of an array field; \<open>$group\<close> makes one row per key, with its
  accumulators; \<open>$sort\<close> orders by the listed keys. The distance of a document from a
  point, in metres, is the parameter \<open>metres\<close>.
\<close>

fun eval_expr :: "expr \<Rightarrow> doc \<Rightarrow> bson" where
  "eval_expr (FieldPath f) d = field d f"
| "eval_expr (ToUpper e) d = (case eval_expr e d of BStr s \<Rightarrow> BStr (toUpper s) | _ \<Rightarrow> BStr [])"
| "eval_expr (Literal x) d = BNum x"

definition numeric :: "bson \<Rightarrow> real option" where
  "numeric v = (case v of BNum x \<Rightarrow> Some x | _ \<Rightarrow> None)"

text \<open>The numeric values of an expression over a group; other values are left out.\<close>

definition numbers :: "expr \<Rightarrow> doc list \<Rightarrow> real list" where
  "numbers e ds = List.map_filter (\<lambda>d. numeric (eval_expr e d)) ds"

fun eval_acc :: "accumulator \<Rightarrow> doc list \<Rightarrow> bson" where
  "eval_acc (Sum e) ds = BNum (sum_list (numbers e ds))"
| "eval_acc (Avg e) ds =
     (let xs = numbers e ds in
      if xs = [] then BNull else BNum (sum_list xs / real (length xs)))"

definition group_row :: "expr \<Rightarrow> (string \<times> accumulator) list \<Rightarrow> doc list \<Rightarrow> bson \<Rightarrow> doc" where
  "group_row key accs ds k =
     (''_id'', k) #
     map (\<lambda>na. (fst na, eval_acc (snd na) (filter (\<lambda>d. eval_expr key d = k) ds))) accs"

definition group_docs :: "expr \<Rightarrow> (string \<times> accumulator) list \<Rightarrow> doc list \<Rightarrow> doc list" where
  "group_docs key accs ds = map (group_row key accs ds) (remdups (map (eval_expr key) ds))"

definition unwind_doc :: "string \<Rightarrow> doc \<Rightarrow> doc list" where
  "unwind_doc f d =
     (case map_of d f of
        None \<Rightarrow> []
      | Some BNull \<Rightarrow> []
      | Some (BArr vs) \<Rightarrow> map (\<lambda>v. set_field f v d) vs
      | Some v \<Rightarrow> [d])"

text \<open>A sort key is numeric; a missing or non-numeric value sorts below every number.\<close>

fun key_less :: "real option \<Rightarrow> real option \<Rightarrow> bool" where
  "key_less None (Some y) = True"
| "key_less (Some x) (Some y) = (x < y)"
| "key_less x None = False"

fun precedes :: "(string \<times> int) list \<Rightarrow> doc \<Rightarrow> doc \<Rightarrow> bool" where
  "precedes [] a b = True"
| "precedes (fd # ks) a b =
     (let x = numeric (field a (fst fd)); y = numeric (field b (fst fd)) in
      if x = y then precedes ks a b
      else if snd fd < 0 then key_less y x else key_less x y)"

text \<open>A stable insertion sort by an order \<open>le\<close>.\<close>

fun insert_by :: "('a \<Rightarrow> 'a \<Rightarrow> bool) \<Rightarrow> 'a \<Rightarrow> 'a list \<Rightarrow> 'a list" where
  "insert_by le x [] = [x]"
| "insert_by le x (y # ys) = (if le x y then x # y # ys else y # insert_by le x ys)"

definition sort_by :: "('a \<Rightarrow> 'a \<Rightarrow> bool) \<Rightarrow> 'a list \<Rightarrow> 'a list" where
  "sort_by le xs = foldr (insert_by le) xs []"

definition nearest_first :: "(real \<times> real \<Rightarrow> doc \<Rightarrow> real) \<Rightarrow> real \<times> real \<Rightarrow> doc list \<Rightarrow> doc list" where
  "nearest_first metres p ds = sort_by (\<lambda>a b. metres p a \<le> metres p b) ds"

fun run_stage :: "(real \<times> real \<Rightarrow> doc \<Rightarrow> real) \<Rightarrow> stage \<Rightarrow> doc list \<Rightarrow> error + doc list" where
  "run_stage metres (GeoNear (Num x, Num y) f mult) ds =
     Inr (map (\<lambda>d. set_field f (BNum (metres (x, y) d * mult)) d) (nearest_first metres (x, y) ds))"
| "run_stage metres (GeoNear near f mult) ds = Inl (Rejected ''$geoNear: invalid point'')"
| "run_stage metres (Project fs) ds =
     Inr (map (filter (\<lambda>kv. fst kv = ''_id'' \<or> fst kv \<in> set fs)) ds)"
| "run_stage metres (Unwind f) ds = Inr (concat (map (unwind_doc f) ds))"
| "run_stage metres (Group key accs) ds = Inr (group_docs key accs ds)"
| "run_stage metres (Sort ks) ds = Inr (sort_by (precedes ks) ds)"

fun run_pipeline :: "(real \<times> real \<Rightarrow> doc \<Rightarrow> real) \<Rightarrow> stage list \<Rightarrow> doc list \<Rightarrow> error + doc list" where
  "run_pipeline metres [] ds = Inr ds"
| "run_pipeline metres (s # ss) ds =
     (case run_stage metres s ds of Inl e \<Rightarrow> Inl e | Inr ds' \<Rightarrow> run_pipeline metres ss ds')"

section \<open>Vocabulary of the properties\<close>

text \<open>The calls on the model among the effects of a handler, in order.\<close>

definition db_calls :: "effect list \<Rightarrow> db_call list" where
  "db_calls tr = List.map_filter (\<lambda>e. case e of DbCall c \<Rightarrow> Some c | _ \<Rightarrow> None) tr"

text \<open>\<open>next\<close> called with an \<open>AppError\<close> of status 400.\<close>

definition is_bad_request :: "effect \<Rightarrow> bool" where
  "is_bad_request e = (case e of Next (AppError msg code) \<Rightarrow> code = 400 | _ \<Rightarrow> False)"

text \<open>The responses among the effects of a handler, in order.\<close>

definition responses :: "effect list \<Rightarrow> (nat \<times> body) list" where
  "responses tr =
     List.map_filter (\<lambda>e. case e of Respond code b \<Rightarrow> Some (code, b) | _ \<Rightarrow> None) tr"

text \<open>The two halves of the \<open>latlng\<close> parameter, as the handlers destructure it.\<close>

definition lat_of :: "string \<Rightarrow> jsstr" where
  "lat_of latlng = at_index (split CHR '','' latlng) 0"

definition lng_of :: "string \<Rightarrow> jsstr" where
  "lng_of latlng = at_index (split CHR '','' latlng) 1"

text \<open>A request the validation of the geospatial handlers objects to: latitude or
  longitude missing, or a unit other than \<open>km\<close> and \<open>mi\<close>.\<close>

definition invalid_geo :: "string \<Rightarrow> string \<Rightarrow> bool" where
  "invalid_geo latlng unit =
     (falsy (lat_of latlng) \<or> falsy (lng_of latlng) \<or> (unit \<noteq> ''km'' \<and> unit \<noteq> ''mi''))"

text \<open>Equality of two reals up to the relative tolerance \<open>tol\<close>.\<close>

definition approx_eq :: "real \<Rightarrow> real \<Rightarrow> real \<Rightarrow> bool" where
  "approx_eq tol a b = (\<bar>a - b\<bar> \<le> tol * max \<bar>a\<bar> \<bar>b\<bar>)"

text \<open>Nearest first, read off the rows of a response: the reported distances do not
  decrease.\<close>

definition by_distance :: "doc \<Rightarrow> doc \<Rightarrow> bool" where
  "by_distance a b =
     (case (field a ''distance'', field b ''distance'') of
        (BNum u, BNum v) \<Rightarrow> u \<le> v
      | _ \<Rightarrow> False)"

text \<open>The order of the statistics rows in the spec's words: descending by restaurant
  count, then by ratings count, then by average rating.\<close>

definition stats_order :: "doc \<Rightarrow> doc \<Rightarrow> bool" where
  "stats_order a b =
     (let na = numeric (field a ''numRestaurants''); nb = numeric (field b ''numRestaurants'');
          qa = numeric (field a ''numRatings''); qb = numeric (field b ''numRatings'');
          ra = numeric (field a ''avgRating''); rb = numeric (field b ''avgRating'')
      in key_less nb na \<or>
         (na = nb \<and> (key_less qb qa \<or> (qa = qb \<and> (key_less rb ra \<or> ra = rb)))))"

text \<open>
  A statistics row in the spec's words: \<open>r\<close> stands for the rows of \<open>rows\<close> whose
  uppercased field \<open>f\<close> is the id of \<open>r\<close>; it carries their number, the sum of their
  \<open>ratingsQuantity\<close> and the average of their \<open>ratingsAverage\<close>.
\<close>

definition upper_of :: "string \<Rightarrow> doc \<Rightarrow> bson" where
  "upper_of f d = (case field d f of BStr s \<Rightarrow> BStr (toUpper s) | _ \<Rightarrow> BStr [])"

definition values_of :: "string \<Rightarrow> doc list \<Rightarrow> real list" where
  "values_of f ds = List.map_filter (\<lambda>d. numeric (field d f)) ds"

definition average :: "real list \<Rightarrow> bson" where
  "average xs = (if xs = [] then BNull else BNum (sum_list xs / real (length xs)))"

definition stats_row :: "string \<Rightarrow> doc list \<Rightarrow> doc \<Rightarrow> bool" where
  "stats_row f rows r =
     (let members = filter (\<lambda>d. upper_of f d = field r ''_id'') rows in
      members \<noteq> [] \<and>
      field r ''numRestaurants'' = BNum (real (length members)) \<and>
      field r ''numRatings'' = BNum (sum_list (values_of ''ratingsQuantity'' members)) \<and>
      field r ''avgRating'' = average (values_of ''ratingsAverage'' members))"

definition stats_of :: "string \<Rightarrow> doc list \<Rightarrow> doc list \<Rightarrow> bool" where
  "stats_of f rows stats =
     (distinct (map (\<lambda>r. field r ''_id'') stats) \<and>
      set (map (\<lambda>r. field r ''_id'') stats) = set (map (upper_of f) rows) \<and>
      list_all (stats_row f rows) stats \<and>
      sorted_wrt stats_order stats)"

text \<open>One row per cuisine tag, in the spec's words: every tag of a document gives a
  row that is the document with the tag in place of the array. A document without
  the field gives no row; one whose field is not an array gives itself.\<close>

definition tag_rows :: "doc list \<Rightarrow> doc list" where
  "tag_rows ds =
     concat (map (\<lambda>d. case field d ''cuisine'' of
                          BArr vs \<Rightarrow> map (\<lambda>t. set_field ''cuisine'' t d) vs
                        | BNull \<Rightarrow> []
                        | v \<Rightarrow> [d]) ds)"

section \<open>Example data\<close>

definition bondi1 :: doc where
  "bondi1 = [(''_id'', BStr ''r1''), (''name'', BStr ''Icebergs''), (''suburb'', BStr ''Bondi''),
     (''cuisine'', BArr [BStr ''Italian'', BStr ''Seafood'']), (''location'', BPoint 151 (-33)),
     (''ratingsAverage'', BNum 4), (''ratingsQuantity'', BNum 10)]"

definition bondi2 :: doc where
  "bondi2 = [(''_id'', BStr ''r2''), (''name'', BStr ''Bills''), (''suburb'', BStr ''bondi''),
     (''cuisine'', BArr [BStr ''Cafe'']), (''location'', BPoint 153 (-33)),
     (''ratingsAverage'', BNum 5), (''ratingsQuantity'', BNum 20)]"

definition manly1 :: doc where
  "manly1 = [(''_id'', BStr ''r3''), (''name'', BStr ''Hugos''), (''suburb'', BStr ''Manly''),
     (''cuisine'', BArr [BStr ''italian'']), (''location'', BPoint 152 (-34)),
     (''ratingsAverage'', BNum 3), (''ratingsQuantity'', BNum 7)]"

definition example_docs :: "doc list" where
  "example_docs = [manly1, bondi1, bondi2]"

text \<open>An example distance: a thousand metres per unit of coordinate difference.\<close>

definition example_metres :: "real \<times> real \<Rightarrow> doc \<Rightarrow> real" where
  "example_metres p d =
     (case field d ''location'' of
        BPoint x y \<Rightarrow> 1000 * (\<bar>x - fst p\<bar> + \<bar>y - snd p\<bar>)
      | _ \<Rightarrow> 0)"

text \<open>An example string-to-number conversion, defined on the strings of the examples.\<close>

definition example_str2num :: "string \<Rightarrow> jsnum" where
  "example_str2num s =
     (if s = ''10'' then Num 10 else if s = ''151'' then Num 151
      else if s = ''-33'' then Num (-33) else NaN)"

text \<open>An example model layer over a list of documents.\<close>

definition example_model :: "doc list \<Rightarrow> model" where
  "example_model ds =
     \<lparr>findById = (\<lambda>rid p. Inr (List.find (\<lambda>d. field d ''_id'' = BStr rid) ds)),
      create = (\<lambda>b. Inr b),
      findByIdAndUpdate =
        (\<lambda>rid b opts. Inr (map_option (\<lambda>d. b @ d) (List.find (\<lambda>d. field d ''_id'' = BStr rid) ds))),
      find_where = (\<lambda>q. Inr ds),
      aggregate = (\<lambda>p. run_pipeline example_metres p ds)\<rparr>"

text \<open>An example model layer whose every call rejects, as when the database cannot be
  reached.\<close>

definition unreachable_model :: model where
  "unreachable_model =
     \<lparr>findById = (\<lambda>rid p. Inl (Rejected ''unreachable'')),
      create = (\<lambda>b. Inl (Rejected ''unreachable'')),
      findByIdAndUpdate = (\<lambda>rid b opts. Inl (Rejected ''unreachable'')),
      find_where = (\<lambda>q. Inl (Rejected ''unreachable'')),
      aggregate = (\<lambda>p. Inl (Rejected ''unreachable''))\<rparr>"

section \<open>Routing\<close>

lemmas route_eval =
  handler_of_def route_request_def segments_def router_def toUpper_def upper_char_def

lemma match_layer_router:
  "match_layer l v ss = Some t \<Longrightarrow> l \<in> set router \<Longrightarrow>
     fst (snd t) \<noteq> GetStatsBySuburb \<and> fst (snd t) \<noteq> GetStatsByCuisine"
  by (cases l) (auto simp: router_def split: if_splits)

lemma dispatch_mem:
  "dispatch ls v ss = Some t \<Longrightarrow> \<exists>l \<in> set ls. match_layer l v ss = Some t"
  by (induction ls) (auto split: option.splits)

text \<open>No layer of the router names a statistics handler, so no request reaches one.\<close>

lemma stats_handlers_unreachable:
  "handler_of v p \<noteq> Some GetStatsBySuburb \<and> handler_of v p \<noteq> Some GetStatsByCuisine"
  unfolding handler_of_def route_request_def
  by (auto split: option.splits dest!: dispatch_mem dest: match_layer_router)

text \<open>
  Claim C2 says that \<open>GET /api/restaurants/stats-by-suburb\<close> runs the suburb statistics
  handler and \<open>GET /api/restaurants/stats-by-cuisine\<close> the cuisine statistics handler.
  The router binds neither path: both requests fall through to the route \<open>/:id\<close> and
  run the get-one handler, with the path segment as the identifier.
\<close>

theorem stats_paths_reach_getRestaurant:
  "route_request GET ''/stats-by-suburb'' =
     Some ([], GetRestaurant, [(''id'', ''stats-by-suburb'')])
   \<and> route_request GET ''/stats-by-cuisine'' =
     Some ([], GetRestaurant, [(''id'', ''stats-by-cuisine'')])"
  by (simp add: route_eval)

section \<open>Handlers for one restaurant\<close>

lemmas example_eval =
  example_model_def example_docs_def bondi1_def bondi2_def manly1_def field_def

lemmas engine_eval =
  sort_by_def nearest_first_def example_metres_def set_field_def group_docs_def group_row_def
  unwind_doc_def numbers_def numeric_def List.map_filter_def

lemma db_calls_simps:
  "db_calls [] = []"
  "db_calls (DbCall c # tr) = c # db_calls tr"
  "db_calls (Next e # tr) = db_calls tr"
  "db_calls (Respond code b # tr) = db_calls tr"
  "db_calls (tr @ tr') = db_calls tr @ db_calls tr'"
  by (simp_all add: db_calls_def List.map_filter_def)







section \<open>The geospatial handlers\<close>




lemma checks_bad_request:
  "list_all is_bad_request (check_point lat lng @ check_unit unit)"
  by (simp add: check_point_def check_unit_def is_bad_request_def)

lemma checks_nonempty:
  "invalid_geo latlng unit \<Longrightarrow> check_point (lat_of latlng) (lng_of latlng) @ check_unit unit \<noteq> []"
  by (auto simp: invalid_geo_def check_point_def check_unit_def)

lemma getRestaurantsWithin_trace:
  "getRestaurantsWithin str2num M distance unit latlng =
     check_point (lat_of latlng) (lng_of latlng) @ check_unit unit @
     DbCall (Find (within_query str2num distance unit latlng)) #
     (case find_where M (within_query str2num distance unit latlng) of
        Inl e \<Rightarrow> [Next e]
      | Inr rs \<Rightarrow> [Respond 200 (Json \<lparr>status = ''success'', count = Some (length rs),
                                       data = Documents rs\<rparr>)])"
  by (simp add: getRestaurantsWithin_def getRestaurantsWithin_fn_def asyncHandler_def Let_def
        lat_of_def lng_of_def at_index_def split: sum.splits)

lemma getDistances_trace:
  "getDistances str2num M latlng unit =
     check_point (lat_of latlng) (lng_of latlng) @ check_unit unit @
     DbCall (Aggregate (distances_pipeline str2num latlng unit)) #
     (case aggregate M (distances_pipeline str2num latlng unit) of
        Inl e \<Rightarrow> [Next e]
      | Inr rs \<Rightarrow> [Respond 200 (Json \<lparr>status = ''success'', count = None,
                                       data = Documents rs\<rparr>)])"
  by (simp add: getDistances_def getDistances_fn_def asyncHandler_def success_def Let_def
        lat_of_def lng_of_def at_index_def split: sum.splits)

lemma ToNumber_Some: "ToNumber str2num (Some s) = str2num s"
  by (simp add: ToNumber_def)

text \<open>
  Claim C1 says that for every radius-search or distances request in which latitude
  or longitude is missing or the unit is neither \<open>km\<close> nor \<open>mi\<close>, the handler calls
  \<open>next\<close> with a 400 error, does not halt, and still reaches the query on the model
  and the 200 response. The response is not reached for every such request: it comes
  after the awaited query, and a query that rejects ends the handler. A distances
  request without a longitude has the point \<open>[NaN, -33]\<close>, which the engine refuses,
  and a radius search on a database that cannot be reached rejects as well; in both
  the 400 error is forwarded, the query is made and no response is sent.
\<close>

theorem invalid_request_without_response:
  "invalid_geo ''-33'' ''km''
   \<and> getDistances example_str2num (example_model example_docs) ''-33'' ''km'' =
       [Next (AppError ''Please provide latitude and longitude of a point'' 400),
        DbCall (Aggregate [GeoNear (NaN, Num (-33)) ''distance'' 0.001,
                           Project [''name'', ''distance'']]),
        Next (Rejected ''$geoNear: invalid point'')]
   \<and> responses (getDistances example_str2num (example_model example_docs) ''-33'' ''km'') = []
   \<and> getRestaurantsWithin example_str2num unreachable_model ''10'' ''km'' ''-33'' =
       [Next (AppError ''Please provide latitude and longitude of a point'' 400),
        DbCall (Find (GeoWithinCenterSphere ''location'' (None, Some ''-33'')
                        (Num (10 / 6378.16)))),
        Next (Rejected ''unreachable'')]
   \<and> responses (getRestaurantsWithin example_str2num unreachable_model ''10'' ''km'' ''-33'') = []"
  by (simp add: getRestaurantsWithin_trace getDistances_trace invalid_geo_def lat_of_def
      lng_of_def at_index_def falsy_def check_point_def check_unit_def within_query_def
      radius_of_def ToNumber_def distances_pipeline_def distanceMultiplier_def example_eval
      example_str2num_def engine_eval unreachable_model_def responses_def)

text \<open>
  Claim C1, amended: for every radius-search or distances request in which latitude
  or longitude is missing or the unit is neither \<open>km\<close> nor \<open>mi\<close>, the handler calls
  \<open>next\<close> with a 400 error and does not halt. The effects of the handler start with
  one or two such calls and go on with the query on the model; the 200 response
  follows whenever the awaited query resolves, as it does for a request that passes
  the validation.
\<close>

theorem validation_does_not_halt:
  assumes "invalid_geo latlng unit"
  shows "(\<exists>errs rest.
            getRestaurantsWithin str2num M distance unit latlng =
              errs @ DbCall (Find (within_query str2num distance unit latlng)) # rest
            \<and> errs \<noteq> [] \<and> list_all is_bad_request errs
            \<and> (\<forall>rs. find_where M (within_query str2num distance unit latlng) = Inr rs \<longrightarrow>
                  rest = [Respond 200 (Json \<lparr>status = ''success'', count = Some (length rs),
                                              data = Documents rs\<rparr>)]))
       \<and> (\<exists>errs rest.
            getDistances str2num M latlng unit =
              errs @ DbCall (Aggregate (distances_pipeline str2num latlng unit)) # rest
            \<and> errs \<noteq> [] \<and> list_all is_bad_request errs
            \<and> (\<forall>rs. aggregate M (distances_pipeline str2num latlng unit) = Inr rs \<longrightarrow>
                  rest = [Respond 200 (Json \<lparr>status = ''success'', count = None,
                                              data = Documents rs\<rparr>)]))"
proof (intro conjI)
  let ?errs = "check_point (lat_of latlng) (lng_of latlng) @ check_unit unit"
  have ne: "?errs \<noteq> []" using assms by (rule checks_nonempty)
  have bad: "list_all is_bad_request ?errs" by (rule checks_bad_request)
  let ?q = "within_query str2num distance unit latlng"
  let ?rest = "case find_where M ?q of
        Inl e \<Rightarrow> [Next e]
      | Inr rs \<Rightarrow> [Respond 200 (Json \<lparr>status = ''success'', count = Some (length rs),
                                       data = Documents rs\<rparr>)]"
  have "getRestaurantsWithin str2num M distance unit latlng = ?errs @ DbCall (Find ?q) # ?rest"
    by (simp add: getRestaurantsWithin_trace)
  moreover have "\<forall>rs. find_where M ?q = Inr rs \<longrightarrow>
      ?rest = [Respond 200 (Json \<lparr>status = ''success'', count = Some (length rs),
                                   data = Documents rs\<rparr>)]"
    by simp
  ultimately show "\<exists>errs rest.
            getRestaurantsWithin str2num M distance unit latlng = errs @ DbCall (Find ?q) # rest
            \<and> errs \<noteq> [] \<and> list_all is_bad_request errs
            \<and> (\<forall>rs. find_where M ?q = Inr rs \<longrightarrow>
                  rest = [Respond 200 (Json \<lparr>status = ''success'', count = Some (length rs),
                                              data = Documents rs\<rparr>)])"
    using ne bad by blast
  let ?p = "distances_pipeline str2num latlng unit"
  let ?rest' = "case aggregate M ?p of
        Inl e \<Rightarrow> [Next e]
      | Inr rs \<Rightarrow> [Respond 200 (Json \<lparr>status = ''success'', count = None,
                                       data = Documents rs\<rparr>)]"
  have "getDistances str2num M latlng unit = ?errs @ DbCall (Aggregate ?p) # ?rest'"
    by (simp add: getDistances_trace)
  moreover have "\<forall>rs. aggregate M ?p = Inr rs \<longrightarrow>
      ?rest' = [Respond 200 (Json \<lparr>status = ''success'', count = None, data = Documents rs\<rparr>)]"
    by simp
  ultimately show "\<exists>errs rest.
            getDistances str2num M latlng unit = errs @ DbCall (Aggregate ?p) # rest
            \<and> errs \<noteq> [] \<and> list_all is_bad_request errs
            \<and> (\<forall>rs. aggregate M ?p = Inr rs \<longrightarrow>
                  rest = [Respond 200 (Json \<lparr>status = ''success'', count = None,
                                              data = Documents rs\<rparr>)])"
    using ne bad by blast
qed

theorem validation_does_not_halt_witness:
  "invalid_geo ''-33'' ''km'' \<and> invalid_geo ''-33,151'' ''furlong''
   \<and> getRestaurantsWithin example_str2num (example_model example_docs) ''10'' ''km'' ''-33'' =
       [Next (AppError ''Please provide latitude and longitude of a point'' 400),
        DbCall (Find (GeoWithinCenterSphere ''location'' (None, Some ''-33'')
                        (Num (10 / 6378.16)))),
        Respond 200 (Json \<lparr>status = ''success'', count = Some 3,
                             data = Documents example_docs\<rparr>)]
   \<and> getDistances example_str2num (example_model example_docs) ''-33'' ''km'' =
       [Next (AppError ''Please provide latitude and longitude of a point'' 400),
        DbCall (Aggregate [GeoNear (NaN, Num (-33)) ''distance'' 0.001,
                           Project [''name'', ''distance'']]),
        Next (Rejected ''$geoNear: invalid point'')]
   \<and> getRestaurantsWithin example_str2num (example_model example_docs) ''10'' ''furlong''
         ''-33,151'' =
       [Next (AppError ''Please provide unit in km(kilometres) or mi(miles)'' 400),
        DbCall (Find (GeoWithinCenterSphere ''location'' (Some ''151'', Some ''-33'')
                        (Num (10 / 3963.2)))),
        Respond 200 (Json \<lparr>status = ''success'', count = Some 3,
                             data = Documents example_docs\<rparr>)]
   \<and> getDistances example_str2num (example_model example_docs) ''-33,151'' ''furlong'' =
       [Next (AppError ''Please provide unit in km(kilometres) or mi(miles)'' 400),
        DbCall (Aggregate [GeoNear (Num 151, Num (-33)) ''distance'' 0.000621371,
                           Project [''name'', ''distance'']]),
        Respond 200 (Json \<lparr>status = ''success'', count = None, data = Documents
           [[(''distance'', BNum 0), (''_id'', BStr ''r1''), (''name'', BStr ''Icebergs'')],
            [(''distance'', BNum 1.242742), (''_id'', BStr ''r3''), (''name'', BStr ''Hugos'')],
            [(''distance'', BNum 1.242742), (''_id'', BStr ''r2''), (''name'', BStr ''Bills'')]]\<rparr>)]"
  using validation_does_not_halt [of "''-33''" "''km''" example_str2num
      "example_model example_docs" "''10''"]
    validation_does_not_halt [of "''-33,151''" "''furlong''" example_str2num
      "example_model example_docs" "''10''"]
  by (simp add: getRestaurantsWithin_trace getDistances_trace invalid_geo_def lat_of_def
      lng_of_def at_index_def falsy_def check_point_def check_unit_def within_query_def
      radius_of_def ToNumber_def distances_pipeline_def distanceMultiplier_def example_eval
      example_str2num_def engine_eval)



text \<open>
  Claim C10: for every radius-search request whose unit is neither \<open>km\<close> nor \<open>mi\<close>,
  the radius is the distance divided by the miles constant 3963.2, and the handler,
  after forwarding the 400 error for the unit, does exactly what it does for the unit
  \<open>mi\<close>: the same query on the model and the same continuation.
\<close>

theorem unknown_unit_is_miles:
  assumes "unit \<noteq> ''km''" and "unit \<noteq> ''mi''"
  shows "radius_of str2num distance unit = js_div_lit (str2num distance) 3963.2
       \<and> db_calls (getRestaurantsWithin str2num M distance unit latlng) =
           [Find (within_query str2num distance ''mi'' latlng)]
       \<and> Next (AppError ''Please provide unit in km(kilometres) or mi(miles)'' 400)
           \<in> set (getRestaurantsWithin str2num M distance unit latlng)
       \<and> remove1 (Next (AppError ''Please provide unit in km(kilometres) or mi(miles)'' 400))
           (getRestaurantsWithin str2num M distance unit latlng) =
         getRestaurantsWithin str2num M distance ''mi'' latlng"
proof -
  have r: "radius_of str2num distance unit = js_div_lit (str2num distance) 3963.2"
    using assms by (simp add: radius_of_def ToNumber_Some)
  have q: "within_query str2num distance unit latlng = within_query str2num distance ''mi'' latlng"
    using assms by (simp add: within_query_def radius_of_def Let_def)
  have "Next (AppError ''Please provide unit in km(kilometres) or mi(miles)'' 400)
      \<notin> set (check_point (lat_of latlng) (lng_of latlng))"
    by (simp add: check_point_def)
  then show ?thesis
    using assms r q
    by (simp add: getRestaurantsWithin_trace db_calls_simps check_point_def check_unit_def
          remove1_append split: sum.splits)
qed

theorem unknown_unit_is_miles_witness:
  "''furlong'' \<noteq> ''km'' \<and> ''furlong'' \<noteq> ''mi''
   \<and> getRestaurantsWithin example_str2num (example_model example_docs) ''10'' ''furlong'' ''-33,151'' =
       [Next (AppError ''Please provide unit in km(kilometres) or mi(miles)'' 400),
        DbCall (Find (GeoWithinCenterSphere ''location'' (Some ''151'', Some ''-33'') (Num (10 / 3963.2)))),
        Respond 200 (Json \<lparr>status = ''success'', count = Some 3, data = Documents example_docs\<rparr>)]
   \<and> getRestaurantsWithin example_str2num (example_model example_docs) ''10'' ''mi'' ''-33,151'' =
       [DbCall (Find (GeoWithinCenterSphere ''location'' (Some ''151'', Some ''-33'') (Num (10 / 3963.2)))),
        Respond 200 (Json \<lparr>status = ''success'', count = Some 3, data = Documents example_docs\<rparr>)]"
  using unknown_unit_is_miles [of "''furlong''" example_str2num "''10''" "example_model example_docs" "''-33,151''"]
  by (simp add: getRestaurantsWithin_trace lat_of_def lng_of_def at_index_def
      falsy_def check_point_def check_unit_def within_query_def radius_of_def ToNumber_def
      example_model_def example_str2num_def example_docs_def)

section \<open>Distances in kilometres and in miles\<close>

text \<open>
  The distance a restaurant is reported at is the distance the engine measured, in
  metres, times the multiplier the handler passes for the unit. Claim C3 says that
  the value for \<open>km\<close> times 1.609344 is the value for \<open>mi\<close> up to a floating
  tolerance. It is the other way round: a distance of 1000 metres is reported as 1
  for \<open>km\<close> and as 0.621371 for \<open>mi\<close>, and 1 times 1.609344 differs from 0.621371
  by more than a tenth of either.
\<close>

theorem km_times_factor_is_not_miles:
  "\<not> approx_eq (1 / 10) (1000 * distanceMultiplier ''km'' * 1.609344) (1000 * distanceMultiplier ''mi'')"
  by (simp add: approx_eq_def distanceMultiplier_def)

lemma scaled_gap:
  fixes m :: real
  shows "m * 0.000621371 * 1.609344 - m * 0.001 = m * (- 309376 / 10 ^ 15)"
  by (simp add: algebra_simps)

text \<open>
  Claim C3, amended: for the same distance \<open>m\<close> in metres, the value reported for unit
  \<open>mi\<close> multiplied by 1.609344 equals the value reported for unit \<open>km\<close> up to a relative
  error of one in a million.
\<close>

theorem miles_times_factor_is_km:
  "approx_eq (1 / 10 ^ 6) (m * distanceMultiplier ''mi'' * 1.609344) (m * distanceMultiplier ''km'')"
proof -
  have gap: "\<bar>m * 0.000621371 * 1.609344 - m * 0.001\<bar> = \<bar>m\<bar> * (309376 / 10 ^ 15)"
    unfolding scaled_gap by (simp add: abs_mult)
  have km: "\<bar>m * 0.001\<bar> = \<bar>m\<bar> * (1 / 10 ^ 3)"
    by (simp add: abs_mult)
  have "\<bar>m\<bar> * (309376 / 10 ^ 15) \<le> (1 / 10 ^ 6) * (\<bar>m\<bar> * (1 / 10 ^ 3))"
    by (simp add: mult_left_mono)
  also have "\<dots> \<le> (1 / 10 ^ 6) * max \<bar>m * 0.000621371 * 1.609344\<bar> \<bar>m * 0.001\<bar>"
    unfolding km [symmetric] by (intro mult_left_mono) simp_all
  finally show ?thesis
    unfolding approx_eq_def distanceMultiplier_def using gap by simp
qed

section \<open>Properties of the aggregation engine\<close>

subsection \<open>The insertion sort\<close>

lemma set_insert_by: "set (insert_by le x xs) = insert x (set xs)"
  by (induction xs) auto

lemma count_insert_by: "count_list (insert_by le x xs) y = count_list (x # xs) y"
  by (induction xs) auto

lemma distinct_map_insert_by:
  "distinct (map f (insert_by le x xs)) = distinct (map f (x # xs))"
  by (induction xs) (auto simp: set_insert_by)

lemma sorted_insert_by:
  assumes total: "\<And>a b. le a b \<or> le b a"
    and trans: "\<And>a b c. le a b \<Longrightarrow> le b c \<Longrightarrow> le a c"
    and sorted: "sorted_wrt le xs"
  shows "sorted_wrt le (insert_by le x xs)"
  using sorted
proof (induction xs)
  case Nil
  then show ?case by simp
next
  case (Cons y ys)
  show ?case
  proof (cases "le x y")
    case True
    then have "\<forall>z \<in> set ys. le x z"
      using Cons.prems trans by auto
    with True Cons.prems show ?thesis by simp
  next
    case False
    then have "le y x" using total by blast
    with False Cons show ?thesis by (auto simp: set_insert_by)
  qed
qed

lemma set_sort_by: "set (sort_by le xs) = set xs"
  by (induction xs) (simp_all add: sort_by_def set_insert_by)

lemma count_sort_by: "count_list (sort_by le xs) y = count_list xs y"
  by (induction xs) (simp_all add: sort_by_def count_insert_by)

lemma distinct_map_sort_by: "distinct (map f (sort_by le xs)) = distinct (map f xs)"
proof (induction xs)
  case Nil
  then show ?case by (simp add: sort_by_def)
next
  case (Cons x xs)
  have "sort_by le (x # xs) = insert_by le x (sort_by le xs)"
    by (simp add: sort_by_def)
  then show ?case
    using Cons by (simp add: distinct_map_insert_by set_sort_by)
qed

lemma sorted_sort_by:
  assumes "\<And>a b. le a b \<or> le b a"
    and "\<And>a b c. le a b \<Longrightarrow> le b c \<Longrightarrow> le a c"
  shows "sorted_wrt le (sort_by le xs)"
proof (induction xs)
  case Nil
  then show ?case by (simp add: sort_by_def)
next
  case (Cons x xs)
  have "sort_by le (x # xs) = insert_by le x (sort_by le xs)"
    by (simp add: sort_by_def)
  with Cons show ?case
    using sorted_insert_by [of le "sort_by le xs" x] assms by simp
qed

subsection \<open>The order of the sort stage\<close>

lemma key_less_irrefl [simp]: "\<not> key_less x x"
  by (cases x) auto

lemma key_less_trans: "key_less x y \<Longrightarrow> key_less y z \<Longrightarrow> key_less x z"
  by (cases x; cases y; cases z) auto

lemma key_less_total: "x = y \<or> key_less x y \<or> key_less y x"
  by (cases x; cases y) auto

lemma key_less_asym: "key_less x y \<Longrightarrow> \<not> key_less y x"
  by (cases x; cases y) auto

lemma precedes_total: "precedes ks a b \<or> precedes ks b a"
proof (induction ks)
  case Nil
  then show ?case by simp
next
  case (Cons fd ks)
  then show ?case
    using key_less_total [of "numeric (field a (fst fd))" "numeric (field b (fst fd))"]
    by (auto simp: Let_def)
qed

lemma precedes_trans: "precedes ks a b \<Longrightarrow> precedes ks b c \<Longrightarrow> precedes ks a c"
proof (induction ks)
  case Nil
  then show ?case by simp
next
  case (Cons fd ks)
  let ?x = "numeric (field a (fst fd))"
  let ?y = "numeric (field b (fst fd))"
  let ?z = "numeric (field c (fst fd))"
  show ?case
  proof (cases "?x = ?y")
    case xy: True
    show ?thesis
    proof (cases "?y = ?z")
      case True
      with xy Cons show ?thesis by (simp add: Let_def)
    next
      case False
      with xy Cons.prems show ?thesis by (simp add: Let_def)
    qed
  next
    case xy: False
    show ?thesis
    proof (cases "?y = ?z")
      case True
      with xy Cons.prems show ?thesis by (simp add: Let_def)
    next
      case False
      with xy Cons.prems show ?thesis
        using key_less_trans [of ?x ?y ?z] key_less_trans [of ?z ?y ?x]
          key_less_asym [of ?x ?y]
        by (auto simp: Let_def split: if_splits)
    qed
  qed
qed

lemma precedes_stats_order:
  "precedes [(''numRestaurants'', -1), (''numRatings'', -1), (''avgRating'', -1)] a b
     = stats_order a b"
  by (auto simp: stats_order_def Let_def)

lemma sorted_stats:
  "sorted_wrt stats_order
     (sort_by (precedes [(''numRestaurants'', -1), (''numRatings'', -1), (''avgRating'', -1)]) xs)"
proof -
  let ?ks = "[(''numRestaurants'', -1), (''numRatings'', -1), (''avgRating'', -1 :: int)]"
  have "sorted_wrt (precedes ?ks) (sort_by (precedes ?ks) xs)"
    by (rule sorted_sort_by) (use precedes_total precedes_trans in blast)+
  moreover have "precedes ?ks = stats_order"
    by (intro ext) (rule precedes_stats_order)
  ultimately show ?thesis by simp
qed

subsection \<open>The distances pipeline\<close>

lemma map_of_filter_fst:
  "map_of (filter (\<lambda>kv. P (fst kv)) d) k = (if P k then map_of d k else None)"
  by (induction d) auto

lemma field_project:
  "field (filter (\<lambda>kv. fst kv = ''_id'' \<or> fst kv \<in> set fs) d) g =
     (if g = ''_id'' \<or> g \<in> set fs then field d g else BNull)"
  using map_of_filter_fst [of "\<lambda>k. k = ''_id'' \<or> k \<in> set fs" d g]
  by (simp add: field_def)

lemma field_set_field:
  "field (set_field f v d) g = (if g = f then v else field d g)"
  using map_of_filter_fst [of "\<lambda>k. k \<noteq> f" d g]
  by (simp add: field_def set_field_def)

lemma fields_project:
  "fst ` set (filter (\<lambda>kv. fst kv = ''_id'' \<or> fst kv \<in> set fs) d) \<subseteq> insert ''_id'' (set fs)"
  by auto

lemma sorted_nearest_first:
  "sorted_wrt (\<lambda>a b. metres p a \<le> metres p b) (nearest_first metres p ds)"
  unfolding nearest_first_def
  by (rule sorted_sort_by) auto

lemma count_nearest_first: "count_list (nearest_first metres p ds) d = count_list ds d"
  by (simp add: nearest_first_def count_sort_by)

lemma valid_checks:
  "\<not> invalid_geo latlng unit \<Longrightarrow>
     check_point (lat_of latlng) (lng_of latlng) = [] \<and> check_unit unit = []"
  by (auto simp: invalid_geo_def check_point_def check_unit_def)

lemma distances_pipeline_eq:
  "distances_pipeline str2num latlng unit =
     [GeoNear (js_mul_lit (ToNumber str2num (lng_of latlng)) 1,
               js_mul_lit (ToNumber str2num (lat_of latlng)) 1)
        ''distance'' (if unit = ''km'' then 0.001 else 0.000621371),
      Project [''name'', ''distance'']]"
  by (simp add: distances_pipeline_def distanceMultiplier_def lat_of_def lng_of_def Let_def)

text \<open>
  Claim C5: for every valid distances request (latitude and longitude present and
  numeric, unit \<open>km\<close> or \<open>mi\<close>), the pipeline has a \<open>$geoNear\<close> stage at the point
  longitude, latitude with the multiplier 0.001 for \<open>km\<close> and 0.000621371 otherwise,
  and a \<open>$project\<close> stage that names \<open>name\<close> and \<open>distance\<close> only. The handler responds
  200 with one row per document: the row carries the distance of the document in
  metres times the multiplier, its name, and no field besides these and the id; the
  rows are ordered nearest first.
\<close>

theorem distances_nearest_first:
  assumes valid: "\<not> invalid_geo latlng unit"
    and lat: "ToNumber str2num (lat_of latlng) = Num y"
    and lng: "ToNumber str2num (lng_of latlng) = Num x"
    and engine: "aggregate M = (\<lambda>p. run_pipeline metres p docs)"
  shows "distances_pipeline str2num latlng unit =
           [GeoNear (Num x, Num y) ''distance'' (if unit = ''km'' then 0.001 else 0.000621371),
            Project [''name'', ''distance'']]
       \<and> (\<exists>rows ds.
             getDistances str2num M latlng unit =
               [DbCall (Aggregate (distances_pipeline str2num latlng unit)),
                Respond 200 (Json \<lparr>status = ''success'', count = None, data = Documents rows\<rparr>)]
           \<and> (\<forall>d. count_list ds d = count_list docs d)
           \<and> sorted_wrt (\<lambda>a b. metres (x, y) a \<le> metres (x, y) b) ds
           \<and> list_all2
                (\<lambda>r d. field r ''distance'' =
                          BNum (metres (x, y) d * (if unit = ''km'' then 0.001 else 0.000621371))
                      \<and> field r ''name'' = field d ''name''
                      \<and> fst ` set r \<subseteq> {''_id'', ''name'', ''distance''})
                rows ds
           \<and> sorted_wrt by_distance rows)"
proof -
  let ?mult = "if unit = ''km'' then 0.001 else 0.000621371 :: real"
  let ?p = "distances_pipeline str2num latlng unit"
  let ?ds = "nearest_first metres (x, y) docs"
  let ?row = "\<lambda>d. filter (\<lambda>kv. fst kv = ''_id'' \<or> fst kv \<in> set [''name'', ''distance''])
      (set_field ''distance'' (BNum (metres (x, y) d * ?mult)) d)"
  have p: "?p = [GeoNear (Num x, Num y) ''distance'' ?mult, Project [''name'', ''distance'']]"
    by (simp add: distances_pipeline_eq lat lng)
  have run: "aggregate M ?p = Inr (map ?row ?ds)"
    unfolding p by (simp add: engine comp_def)
  have trace: "getDistances str2num M latlng unit =
      [DbCall (Aggregate ?p),
       Respond 200 (Json \<lparr>status = ''success'', count = None, data = Documents (map ?row ?ds)\<rparr>)]"
    using valid_checks [OF valid] by (simp add: getDistances_trace run)
  have dist: "field (?row d) ''distance'' = BNum (metres (x, y) d * ?mult)" for d
    by (simp only: field_project field_set_field) simp
  have name: "field (?row d) ''name'' = field d ''name''" for d
    by (simp only: field_project field_set_field) simp
  have fields: "fst ` set (?row d) \<subseteq> {''_id'', ''name'', ''distance''}" for d
    using fields_project [of "[''name'', ''distance'']"] by auto
  have rows: "list_all2
      (\<lambda>r d. field r ''distance'' = BNum (metres (x, y) d * ?mult)
            \<and> field r ''name'' = field d ''name''
            \<and> fst ` set r \<subseteq> {''_id'', ''name'', ''distance''})
      (map ?row ?ds) ?ds"
    unfolding list_all2_map1 using dist name fields by (simp add: list_all2_same)
  have mult: "0 \<le> ?mult" by simp
  have "sorted_wrt (\<lambda>a b. by_distance (?row a) (?row b)) ?ds"
  proof (rule sorted_wrt_mono_rel [OF _ sorted_nearest_first])
    fix a b
    assume "metres (x, y) a \<le> metres (x, y) b"
    then have "metres (x, y) a * ?mult \<le> metres (x, y) b * ?mult"
      using mult by (rule mult_right_mono)
    then show "by_distance (?row a) (?row b)"
      unfolding by_distance_def dist by simp
  qed
  then have sorted: "sorted_wrt by_distance (map ?row ?ds)"
    by (simp add: sorted_wrt_map)
  show ?thesis
    using p trace rows sorted sorted_nearest_first [of metres "(x, y)" docs]
      count_nearest_first [of metres "(x, y)" docs]
    by blast
qed

theorem distances_nearest_first_witness:
  "\<not> invalid_geo ''-33,151'' ''km''
   \<and> ToNumber example_str2num (lat_of ''-33,151'') = Num (-33)
   \<and> ToNumber example_str2num (lng_of ''-33,151'') = Num 151
   \<and> getDistances example_str2num (example_model example_docs) ''-33,151'' ''km'' =
       [DbCall (Aggregate [GeoNear (Num 151, Num (-33)) ''distance'' 0.001,
                           Project [''name'', ''distance'']]),
        Respond 200 (Json \<lparr>status = ''success'', count = None, data = Documents
           [[(''distance'', BNum 0), (''_id'', BStr ''r1''), (''name'', BStr ''Icebergs'')],
            [(''distance'', BNum 2), (''_id'', BStr ''r3''), (''name'', BStr ''Hugos'')],
            [(''distance'', BNum 2), (''_id'', BStr ''r2''), (''name'', BStr ''Bills'')]]\<rparr>)]"
  using distances_nearest_first [of "''-33,151''" "''km''" example_str2num "-33" 151
      "example_model example_docs" example_metres example_docs]
  by (simp add: getDistances_trace invalid_geo_def lat_of_def lng_of_def at_index_def
      falsy_def check_point_def check_unit_def ToNumber_def distances_pipeline_def
      distanceMultiplier_def example_eval example_str2num_def engine_eval)

subsection \<open>The statistics pipelines\<close>

lemma unwind_doc_cuisine:
  "unwind_doc ''cuisine'' d =
     (case field d ''cuisine'' of
        BArr vs \<Rightarrow> map (\<lambda>t. set_field ''cuisine'' t d) vs
      | BNull \<Rightarrow> []
      | v \<Rightarrow> [d])"
  by (simp add: unwind_doc_def field_def split: option.splits bson.splits)

lemma unwind_tag_rows: "concat (map (unwind_doc ''cuisine'') ds) = tag_rows ds"
proof -
  have "unwind_doc ''cuisine'' =
      (\<lambda>d. case field d ''cuisine'' of
         BArr vs \<Rightarrow> map (\<lambda>t. set_field ''cuisine'' t d) vs
       | BNull \<Rightarrow> []
       | v \<Rightarrow> [d])"
    by (rule ext) (rule unwind_doc_cuisine)
  then show ?thesis by (simp add: tag_rows_def)
qed

lemma eval_upper: "eval_expr (ToUpper (FieldPath f)) = upper_of f"
  by (rule ext) (simp add: upper_of_def)

lemma sum_numbers_literal: "sum_list (numbers (Literal c) ds) = real (length ds) * c"
  by (induction ds) (simp_all add: numbers_def numeric_def List.map_filter_def algebra_simps)

lemma numbers_field: "numbers (FieldPath g) ds = values_of g ds"
  by (simp add: numbers_def values_of_def)

lemma group_row_id: "field (group_row key accs ds k) ''_id'' = k"
  by (simp add: group_row_def field_def)

lemma group_row_stats:
  assumes "k \<in> set (map (upper_of f) rows)"
  shows "stats_row f rows (group_row (ToUpper (FieldPath f))
      [(''numRestaurants'', Sum (Literal 1)),
        (''numRatings'', Sum (FieldPath ''ratingsQuantity'')),
        (''avgRating'', Avg (FieldPath ''ratingsAverage''))] rows k)"
    (is "stats_row f rows ?r")
proof -
  let ?members = "filter (\<lambda>d. upper_of f d = k) rows"
  have row: "?r =
      [(''_id'', k),
       (''numRestaurants'', BNum (real (length ?members))),
       (''numRatings'', BNum (sum_list (values_of ''ratingsQuantity'' ?members))),
       (''avgRating'', average (values_of ''ratingsAverage'' ?members))]"
    by (simp add: group_row_def eval_upper sum_numbers_literal numbers_field average_def Let_def
          del: eval_expr.simps)
  have ne: "?members \<noteq> []"
    using assms by (auto simp: filter_empty_conv)
  have "field ?r ''_id'' = k"
    and "field ?r ''numRestaurants'' = BNum (real (length ?members))"
    and "field ?r ''numRatings'' = BNum (sum_list (values_of ''ratingsQuantity'' ?members))"
    and "field ?r ''avgRating'' = average (values_of ''ratingsAverage'' ?members)"
    unfolding row by (simp_all add: field_def)
  with ne show ?thesis
    unfolding stats_row_def Let_def by simp
qed

lemma group_docs_ids:
  "map (\<lambda>r. field r ''_id'') (group_docs key accs ds) = remdups (map (eval_expr key) ds)"
  by (simp add: group_docs_def group_row_id comp_def)

lemma stats_of_sorted_groups:
  "stats_of f rows
     (sort_by (precedes [(''numRestaurants'', -1), (''numRatings'', -1), (''avgRating'', -1)])
        (group_docs (ToUpper (FieldPath f))
           [(''numRestaurants'', Sum (Literal 1)),
            (''numRatings'', Sum (FieldPath ''ratingsQuantity'')),
            (''avgRating'', Avg (FieldPath ''ratingsAverage''))] rows))"
    (is "stats_of f rows (sort_by ?le ?groups)")
proof -
  have ids: "map (\<lambda>r. field r ''_id'') ?groups = remdups (map (upper_of f) rows)"
    by (simp add: group_docs_ids eval_upper del: eval_expr.simps)
  have "distinct (map (\<lambda>r. field r ''_id'') (sort_by ?le ?groups))"
    by (simp add: distinct_map_sort_by ids)
  moreover have "set (map (\<lambda>r. field r ''_id'') (sort_by ?le ?groups)) = set (map (upper_of f) rows)"
  proof -
    have "set (map (\<lambda>r. field r ''_id'') (sort_by ?le ?groups))
        = set (map (\<lambda>r. field r ''_id'') ?groups)"
      by (simp add: set_sort_by)
    then show ?thesis by (simp add: ids)
  qed
  moreover have "list_all (stats_row f rows) (sort_by ?le ?groups)"
  proof -
    have "\<forall>r \<in> set ?groups. stats_row f rows r"
      using group_row_stats [of _ f rows]
      by (auto simp: group_docs_def eval_upper simp del: eval_expr.simps)
    then show ?thesis by (simp add: list_all_iff set_sort_by)
  qed
  moreover have "sorted_wrt stats_order (sort_by ?le ?groups)"
    by (rule sorted_stats)
  ultimately show ?thesis by (simp add: stats_of_def)
qed

lemma run_suburb_pipeline:
  "run_pipeline metres suburb_pipeline ds =
     Inr (sort_by (precedes [(''numRestaurants'', -1), (''numRatings'', -1), (''avgRating'', -1)])
        (group_docs (ToUpper (FieldPath ''suburb''))
           [(''numRestaurants'', Sum (Literal 1)),
            (''numRatings'', Sum (FieldPath ''ratingsQuantity'')),
            (''avgRating'', Avg (FieldPath ''ratingsAverage''))] ds))"
  by (simp add: suburb_pipeline_def stats_group_def stats_sort_def)

lemma run_cuisine_pipeline:
  "run_pipeline metres cuisine_pipeline ds =
     Inr (sort_by (precedes [(''numRestaurants'', -1), (''numRatings'', -1), (''avgRating'', -1)])
        (group_docs (ToUpper (FieldPath ''cuisine''))
           [(''numRestaurants'', Sum (Literal 1)),
            (''numRatings'', Sum (FieldPath ''ratingsQuantity'')),
            (''avgRating'', Avg (FieldPath ''ratingsAverage''))] (tag_rows ds)))"
  by (simp add: cuisine_pipeline_def stats_group_def stats_sort_def unwind_tag_rows)

lemma stats_trace:
  "aggregate M p = Inr stats \<Longrightarrow>
     asyncHandler (stats_fn M p) =
       [DbCall (Aggregate p),
        Respond 200 (Json \<lparr>status = ''success'', count = None, data = Documents stats\<rparr>)]"
  by (simp add: asyncHandler_def stats_fn_def success_def)

text \<open>
  Claim C6: for every database state, the suburb statistics are one row per
  uppercased suburb, and the cuisine statistics one row per uppercased cuisine tag
  after the cuisine array has been unwound into one row per tag. Each row carries the
  number of its restaurants, the sum of their \<open>ratingsQuantity\<close> and the average of
  their \<open>ratingsAverage\<close>; the rows are sorted descending by the number of
  restaurants, then by the number of ratings, then by the average rating. Both
  handlers respond 200 with these rows.
\<close>

theorem stats_by_suburb_and_cuisine:
  assumes "aggregate M = (\<lambda>p. run_pipeline metres p docs)"
  shows "(\<exists>stats.
            getStatsBySuburb M =
              [DbCall (Aggregate suburb_pipeline),
               Respond 200 (Json \<lparr>status = ''success'', count = None, data = Documents stats\<rparr>)]
            \<and> stats_of ''suburb'' docs stats)
       \<and> (\<exists>stats.
            getStatsByCuisine M =
              [DbCall (Aggregate cuisine_pipeline),
               Respond 200 (Json \<lparr>status = ''success'', count = None, data = Documents stats\<rparr>)]
            \<and> stats_of ''cuisine'' (tag_rows docs) stats)"
proof (intro conjI)
  show "\<exists>stats.
            getStatsBySuburb M =
              [DbCall (Aggregate suburb_pipeline),
               Respond 200 (Json \<lparr>status = ''success'', count = None, data = Documents stats\<rparr>)]
            \<and> stats_of ''suburb'' docs stats"
    unfolding getStatsBySuburb_def
    using stats_trace [of M suburb_pipeline] stats_of_sorted_groups [of "''suburb''" docs]
    by (simp add: assms run_suburb_pipeline)
  show "\<exists>stats.
            getStatsByCuisine M =
              [DbCall (Aggregate cuisine_pipeline),
               Respond 200 (Json \<lparr>status = ''success'', count = None, data = Documents stats\<rparr>)]
            \<and> stats_of ''cuisine'' (tag_rows docs) stats"
    unfolding getStatsByCuisine_def
    using stats_trace [of M cuisine_pipeline] stats_of_sorted_groups [of "''cuisine''" "tag_rows docs"]
    by (simp add: assms run_cuisine_pipeline)
qed

theorem stats_by_suburb_and_cuisine_witness:
  "aggregate (example_model example_docs) = (\<lambda>p. run_pipeline example_metres p example_docs)
   \<and> getStatsBySuburb (example_model example_docs) =
       [DbCall (Aggregate suburb_pipeline),
        Respond 200 (Json \<lparr>status = ''success'', count = None, data = Documents
          [[(''_id'', BStr ''BONDI''), (''numRestaurants'', BNum 2),
            (''numRatings'', BNum 30), (''avgRating'', BNum 4.5)],
           [(''_id'', BStr ''MANLY''), (''numRestaurants'', BNum 1),
            (''numRatings'', BNum 7), (''avgRating'', BNum 3)]]\<rparr>)]
   \<and> getStatsByCuisine (example_model example_docs) =
       [DbCall (Aggregate cuisine_pipeline),
        Respond 200 (Json \<lparr>status = ''success'', count = None, data = Documents
          [[(''_id'', BStr ''ITALIAN''), (''numRestaurants'', BNum 2),
            (''numRatings'', BNum 17), (''avgRating'', BNum 3.5)],
           [(''_id'', BStr ''CAFE''), (''numRestaurants'', BNum 1),
            (''numRatings'', BNum 20), (''avgRating'', BNum 5)],
           [(''_id'', BStr ''SEAFOOD''), (''numRestaurants'', BNum 1),
            (''numRatings'', BNum 10), (''avgRating'', BNum 4)]]\<rparr>)]"
  using stats_by_suburb_and_cuisine [of "example_model example_docs" example_metres example_docs]
  by (simp add: getStatsBySuburb_def getStatsByCuisine_def asyncHandler_def stats_fn_def
      success_def suburb_pipeline_def cuisine_pipeline_def stats_group_def stats_sort_def
      example_eval engine_eval toUpper_def upper_char_def Let_def)

end
